theory Spec2Isabelle
  imports Main
begin

section \<open>Data model\<close>

text \<open>
  Go strings are byte strings, modelled as \<open>string\<close>. A Go \<open>error\<close> value carries a
  message; the nil error is \<open>None\<close> of \<open>go_error option\<close>. A Go pointer \<open>*T\<close> is a
  \<open>T ptr\<close>, with \<open>None\<close> for nil, and dereferencing nil is the panic \<open>NilDereference\<close>.
\<close>

datatype go_error = Error string

type_synonym 'a ptr = "'a option"

datatype panic = NilDereference

text \<open>
  A \<open>*zap.Logger\<close> is identified by a number and carries its core, which decides for
  every entry the logger is handed whether the entry is written out (a core filters by
  level and may sample). The decision is a parameter of the logger: it is given the
  levels and messages of the entries the logger was handed before, and the level and the
  message of the new entry.

  The log holds one \<open>log_entry\<close> for every logging call made on a logger, in the order of
  the calls: the logger, the level, the message, the fields (\<open>zap.String(k, v)\<close> is the
  pair \<open>(k, v)\<close>, \<open>zap.Error(e)\<close> the pair \<open>(''error'', message of e)\<close>), and
  \<open>entry_written\<close>, the decision of the logger's core. The entries that a run emits are
  those of its log with \<open>entry_written\<close>.
\<close>

datatype level = InfoLevel | FatalLevel

type_synonym zap_core = "(level \<times> string) list \<Rightarrow> level \<Rightarrow> string \<Rightarrow> bool"

datatype zap_Logger = ZapLogger (logger_id: nat) (logger_core: zap_core)

record log_entry =
  entry_logger :: zap_Logger
  entry_level :: level
  entry_msg :: string
  entry_fields :: "(string \<times> string) list"
  entry_written :: bool

text \<open>The struct \<open>Config\<close> of package config.\<close>

record Config =
  Port :: string
  DBUrl :: string
  TwilioSID :: string
  TwilioToken :: string
  Logger :: "zap_Logger ptr"

text \<open>
  The process environment maps a variable's name to its value; an unset variable has no
  entry, and a variable set to the empty string has the entry \<open>Some ''''\<close>.
\<close>

type_synonym environ = "string \<rightharpoonup> string"

section \<open>Package config\<close>

text \<open>\<open>os.Getenv\<close>: the value of the variable, the empty string when it is unset.\<close>

definition os_Getenv :: "environ \<Rightarrow> string \<Rightarrow> string" where
  "os_Getenv env key = (case env key of None \<Rightarrow> '''' | Some v \<Rightarrow> v)"

definition getEnv :: "environ \<Rightarrow> string \<Rightarrow> string \<Rightarrow> string" where
  "getEnv env key fallback =
     (let val = os_Getenv env key
      in if val = '''' then fallback else val)"

text \<open>
  \<open>godotenv.Load\<close> belongs to a library outside the repository, so it is a parameter of
  \<open>Load\<close>: a function that receives the process environment and gives back an error (or
  nil) and the environment it leaves behind. \<open>Load\<close> drops the error (\<open>_ = godotenv.Load()\<close>)
  and reads the four variables from the environment left behind. It returns the address of
  a struct literal, whose \<open>Logger\<close> field is not mentioned and is therefore nil.
\<close>

type_synonym godotenv = "environ \<Rightarrow> go_error option \<times> environ"

definition Load :: "godotenv \<Rightarrow> environ \<Rightarrow> Config ptr \<times> environ" where
  "Load godotenv_Load env =
     (let (_, env') = godotenv_Load env
      in (Some \<lparr> Port = getEnv env' ''PORT'' ''8080'',
                 DBUrl = os_Getenv env' ''DATABASE_URL'',
                 TwilioSID = os_Getenv env' ''TWILIO_SID'',
                 TwilioToken = os_Getenv env' ''TWILIO_TOKEN'',
                 Logger = None \<rparr>, env'))"

text \<open>
  The outcome of \<open>godotenv.Load\<close> when there is no \<open>.env\<close> file: the error of the failed
  open, and the environment as it was.
\<close>

definition dotenv_absent :: godotenv where
  "dotenv_absent env = (Some (Error ''open .env: no such file or directory''), env)"

section \<open>Package server\<close>

subsection \<open>The libraries that \<open>Start\<close> calls\<close>

text \<open>
  The levels and messages of the entries of a log that were handed to a logger, oldest
  first: what the logger's core has seen.
\<close>

definition handed :: "zap_Logger \<Rightarrow> log_entry list \<Rightarrow> (level \<times> string) list" where
  "handed l lg =
     map (\<lambda>e. (entry_level e, entry_msg e))
       (filter (\<lambda>e. logger_id (entry_logger e) = logger_id l) lg)"

text \<open>
  A logging call at a level on a \<open>*zap.Logger\<close>: a nil logger panics, any other logger
  is handed one entry, which its core writes out or drops.
\<close>

definition zap_log ::
  "zap_Logger ptr \<Rightarrow> level \<Rightarrow> string \<Rightarrow> (string \<times> string) list \<Rightarrow> log_entry list
     \<Rightarrow> panic + log_entry list" where
  "zap_log logger lvl msg fs lg =
     (case logger of
        None \<Rightarrow> Inl NilDereference
      | Some l \<Rightarrow> Inr (lg @ [\<lparr> entry_logger = l, entry_level = lvl,
                               entry_msg = msg, entry_fields = fs,
                               entry_written = logger_core l (handed l lg) lvl msg \<rparr>]))"

text \<open>\<open>logger.Info(msg, fs...)\<close>\<close>

definition zap_Info ::
  "zap_Logger ptr \<Rightarrow> string \<Rightarrow> (string \<times> string) list \<Rightarrow> log_entry list
     \<Rightarrow> panic + log_entry list" where
  "zap_Info logger msg fs lg = zap_log logger InfoLevel msg fs lg"

text \<open>
  Two cores. \<open>core_all\<close> writes every entry: every level enabled, no sampling (as the
  logger of \<open>zap.NewDevelopment\<close>). \<open>core_production\<close> is the core of the logger that
  \<open>zap.NewProduction\<close> builds, which enables Info and above and samples with Initial 100
  and Thereafter 100, for calls that all fall within one sampling interval of one second:
  of the entries with the same level and message it writes the first 100 and then every
  100th.
\<close>

definition core_all :: zap_core where
  "core_all h lvl msg = True"

definition core_production :: zap_core where
  "core_production h lvl msg =
     (let n = Suc (length (filter (\<lambda>(lvl', msg'). lvl' = lvl \<and> msg' = msg) h))
      in n \<le> 100 \<or> (n - 100) mod 100 = 0)"

record request =
  req_method :: string
  req_path :: string
  req_header :: "(string \<times> string) list"
  req_body :: string

record response =
  resp_status :: nat
  resp_body :: string

text \<open>
  Modelled from the spec: the \<open>http.ResponseWriter\<close> of net/http, which is not part of
  the repository. The spec's "implicit 200 status": a write before any call of
  \<open>WriteHeader\<close> sets the status to 200, and a handler that returns without writing
  anything is answered with 200 as well. \<open>rw_status = None\<close> says that the header has not
  been written yet.
\<close>

record response_writer =
  rw_status :: "nat option"
  rw_body :: string

definition rw_new :: response_writer where
  "rw_new = \<lparr> rw_status = None, rw_body = '''' \<rparr>"

definition rw_Write :: "response_writer \<Rightarrow> string \<Rightarrow> response_writer" where
  "rw_Write w data =
     w \<lparr> rw_status := (case rw_status w of None \<Rightarrow> Some 200 | Some c \<Rightarrow> Some c),
         rw_body := rw_body w @ data \<rparr>"

definition rw_finish :: "response_writer \<Rightarrow> response" where
  "rw_finish w =
     \<lparr> resp_status = (case rw_status w of None \<Rightarrow> 200 | Some c \<Rightarrow> c),
       resp_body = rw_body w \<rparr>"

text \<open>
  \<open>fmt.Fprintln(w, s)\<close> with one string operand writes the operand followed by a newline
  (the byte 0x0A).
\<close>

definition fmt_Fprintln :: "response_writer \<Rightarrow> string \<Rightarrow> response_writer" where
  "fmt_Fprintln w s = rw_Write w (s @ [CHR 0x0A])"

text \<open>
  A handler receives the response writer, the request and the log, and either panics or
  gives back the writer and the log as it leaves them.
\<close>

type_synonym handler =
  "response_writer \<Rightarrow> request \<Rightarrow> log_entry list \<Rightarrow> panic + (response_writer \<times> log_entry list)"

text \<open>
  The router of chi, as far as \<open>Start\<close> uses it: \<open>NewRouter\<close> gives a router without
  routes, \<open>Get\<close> registers a handler for the method GET and a pattern without parameters,
  which matches a request whose path is the pattern. A request whose method is not one of
  the methods chi knows is "method not allowed", whatever its path. Any other request is
  answered by the handler of the first route that matches its method and path; a path
  that is registered under other methods only is "method not allowed", any other path is
  "not found". A handler's panic aborts the request.
\<close>

definition chi_methods :: "string list" where
  "chi_methods =
     [''CONNECT'', ''DELETE'', ''GET'', ''HEAD'', ''OPTIONS'', ''PATCH'', ''POST'', ''PUT'',
      ''TRACE'']"

record route =
  route_method :: string
  route_pattern :: string
  route_handler :: handler

type_synonym Mux = "route list"

definition chi_NewRouter :: Mux where
  "chi_NewRouter = []"

definition chi_Get :: "Mux \<Rightarrow> string \<Rightarrow> handler \<Rightarrow> Mux" where
  "chi_Get r pattern h =
     r @ [\<lparr> route_method = ''GET'', route_pattern = pattern, route_handler = h \<rparr>]"

datatype outcome = Responded response | NotFound | MethodNotAllowed | Aborted panic

definition ServeHTTP :: "Mux \<Rightarrow> request \<Rightarrow> log_entry list \<Rightarrow> outcome \<times> log_entry list" where
  "ServeHTTP r rq lg =
     (if req_method rq \<notin> set chi_methods then (MethodNotAllowed, lg)
      else
        case find (\<lambda>rt. route_pattern rt = req_path rq \<and> route_method rt = req_method rq) r of
          Some rt \<Rightarrow>
            (case route_handler rt rw_new rq lg of
               Inl p \<Rightarrow> (Aborted p, lg)
             | Inr (w, lg') \<Rightarrow> (Responded (rw_finish w), lg'))
        | None \<Rightarrow>
            (if find (\<lambda>rt. route_pattern rt = req_path rq) r = None then NotFound
             else MethodNotAllowed, lg))"

text \<open>
  Modelled from the spec: \<open>http.ListenAndServe\<close> of net/http, which is not part of the
  repository. It binds and listens on the address; the call blocks for the lifetime of the
  process and returns only on a fatal error of the listener (for example, the port is in
  use). The network is a parameter: \<open>net_listen\<close> tells whether binding an address fails,
  \<open>net_requests\<close> are the requests that arrive while the listener is up, in the order in
  which they are served, and \<open>net_failure\<close> is the fatal error that ends the listener,
  \<open>None\<close> when there is none. The result records the address, the error returned
  (\<open>None\<close>: the call has not returned), the outcome of every request and the log.
\<close>

record network =
  net_listen :: "string \<Rightarrow> go_error option"
  net_requests :: "request list"
  net_failure :: "go_error option"

record serving =
  srv_addr :: string
  srv_returned :: "go_error option"
  srv_outcomes :: "outcome list"
  srv_log :: "log_entry list"

fun serve :: "Mux \<Rightarrow> request list \<Rightarrow> log_entry list \<Rightarrow> outcome list \<times> log_entry list" where
  "serve r [] lg = ([], lg)"
| "serve r (rq # rqs) lg =
     (let (out, lg') = ServeHTTP r rq lg;
          (outs, lg'') = serve r rqs lg'
      in (out # outs, lg''))"

definition http_ListenAndServe ::
  "string \<Rightarrow> Mux \<Rightarrow> network \<Rightarrow> log_entry list \<Rightarrow> serving" where
  "http_ListenAndServe addr r net lg =
     (case net_listen net addr of
        Some e \<Rightarrow>
          \<lparr> srv_addr = addr, srv_returned = Some e, srv_outcomes = [], srv_log = lg \<rparr>
      | None \<Rightarrow>
          (let (outs, lg') = serve r (net_requests net) lg
           in \<lparr> srv_addr = addr, srv_returned = net_failure net,
                srv_outcomes = outs, srv_log = lg' \<rparr>))"

subsection \<open>\<open>Start\<close>\<close>

text \<open>
  The function literal that \<open>Start\<close> registers for \<open>/health\<close>. It closes over the
  logger; the request is not read.
\<close>

definition health :: "zap_Logger ptr \<Rightarrow> handler" where
  "health logger w rq lg =
     (case zap_Info logger ''Health check called'' [] lg of
        Inl p \<Rightarrow> Inl p
      | Inr lg' \<Rightarrow> Inr (fmt_Fprintln w ''OK'', lg'))"

definition Start ::
  "Config ptr \<Rightarrow> zap_Logger ptr \<Rightarrow> network \<Rightarrow> log_entry list \<Rightarrow> panic + serving" where
  "Start cfg logger net lg =
     (let r = chi_NewRouter;
          r = chi_Get r ''/health'' (health logger)
      in case cfg of
           None \<Rightarrow> Inl NilDereference
         | Some c \<Rightarrow>
             (let addr = '':'' @ Port c
              in case zap_Info logger ''Server listening'' [(''addr'', addr)] lg of
                   Inl p \<Rightarrow> Inl p
                 | Inr lg' \<Rightarrow> Inr (http_ListenAndServe addr r net lg')))"

section \<open>The entrypoint\<close>

text \<open>
  The body of \<open>main\<close> is the list of its statements in the order of the source. A
  statement transforms the state of the process: the local variables of \<open>main\<close>, each
  either not yet declared or declared with a value, the process environment, the log, the
  messages handed to the standard logger of package log (which prints each on standard
  error behind the date and the time), the calls deferred, the outcomes of the requests
  served, and the reason why the process halted, if it did. A run executes the statements
  in order and stops at the first one that halts.

  A statement that reads a variable before the statement that declares it halts with
  \<open>Undefined\<close> and the variable's name: this is the model's form of Go's compile error
  "undefined: name", which rejects the program at that statement.
\<close>

datatype 'a var = Undeclared | Declared 'a

record locals =
  v_cfg :: "Config ptr var"
  v_logger :: "zap_Logger ptr var"
  v_err :: "go_error option var"

datatype halt = Undefined string | Panicked panic | Exited nat | Blocked

record process =
  scope :: locals
  environ :: environ
  log :: "log_entry list"
  std_log :: "string list"
  deferred :: "string list"
  served :: "outcome list"
  halted :: "halt option"

type_synonym stmt = "process \<Rightarrow> process"

definition halt_with :: "halt \<Rightarrow> process \<Rightarrow> process" where
  "halt_with h p = p \<lparr> halted := Some h \<rparr>"

fun exec :: "stmt list \<Rightarrow> process \<Rightarrow> process" where
  "exec [] p = p"
| "exec (st # sts) p =
     (let p' = st p
      in if halted p' = None then exec sts p' else p')"

text \<open>\<open>cfg := config.Load()\<close>\<close>

definition stmt_Load :: "godotenv \<Rightarrow> stmt" where
  "stmt_Load gd p =
     (let (c, env') = Load gd (environ p)
      in p \<lparr> scope := (scope p) \<lparr> v_cfg := Declared c \<rparr>, environ := env' \<rparr>)"

text \<open>\<open>cfg.Logger = logger\<close>\<close>

definition stmt_assign_Logger :: stmt where
  "stmt_assign_Logger p =
     (case v_cfg (scope p) of
        Undeclared \<Rightarrow> halt_with (Undefined ''cfg'') p
      | Declared c \<Rightarrow>
          (case v_logger (scope p) of
             Undeclared \<Rightarrow> halt_with (Undefined ''logger'') p
           | Declared l \<Rightarrow>
               (case c of
                  None \<Rightarrow> halt_with (Panicked NilDereference) p
                | Some cfg \<Rightarrow>
                    p \<lparr> scope := (scope p) \<lparr> v_cfg := Declared (Some (cfg \<lparr> Logger := l \<rparr>)) \<rparr> \<rparr>)))"

text \<open>
  \<open>logger, err := zap.NewProduction()\<close>. The outcome of \<open>zap.NewProduction\<close> is a
  parameter: an error, or a logger.
\<close>

definition stmt_NewProduction :: "go_error + zap_Logger \<Rightarrow> stmt" where
  "stmt_NewProduction np p =
     (case np of
        Inl e \<Rightarrow> p \<lparr> scope := (scope p) \<lparr> v_logger := Declared None, v_err := Declared (Some e) \<rparr> \<rparr>
      | Inr l \<Rightarrow> p \<lparr> scope := (scope p) \<lparr> v_logger := Declared (Some l), v_err := Declared None \<rparr> \<rparr>)"

text \<open>
  \<open>if err != nil { log.Fatalf("can't initialize zap logger: %v", err) }\<close>: \<open>log.Fatalf\<close>
  hands the formatted message to the standard logger and exits with status 1.
\<close>

definition stmt_check_err :: stmt where
  "stmt_check_err p =
     (case v_err (scope p) of
        Undeclared \<Rightarrow> halt_with (Undefined ''err'') p
      | Declared None \<Rightarrow> p
      | Declared (Some (Error m)) \<Rightarrow>
          halt_with (Exited 1)
            (p \<lparr> std_log := std_log p @ [''can't initialize zap logger: '' @ m] \<rparr>))"

text \<open>\<open>defer logger.Sync()\<close>\<close>

definition stmt_defer_Sync :: stmt where
  "stmt_defer_Sync p =
     (case v_logger (scope p) of
        Undeclared \<Rightarrow> halt_with (Undefined ''logger'') p
      | Declared l \<Rightarrow> p \<lparr> deferred := ''logger.Sync'' # deferred p \<rparr>)"

text \<open>\<open>logger.Info("Starting GovInfo API", zap.String("port", cfg.Port))\<close>\<close>

definition stmt_Info_starting :: stmt where
  "stmt_Info_starting p =
     (case v_logger (scope p) of
        Undeclared \<Rightarrow> halt_with (Undefined ''logger'') p
      | Declared l \<Rightarrow>
          (case v_cfg (scope p) of
             Undeclared \<Rightarrow> halt_with (Undefined ''cfg'') p
           | Declared None \<Rightarrow> halt_with (Panicked NilDereference) p
           | Declared (Some cfg) \<Rightarrow>
               (case zap_Info l ''Starting GovInfo API'' [(''port'', Port cfg)] (log p) of
                  Inl pn \<Rightarrow> halt_with (Panicked pn) p
                | Inr lg' \<Rightarrow> p \<lparr> log := lg' \<rparr>)))"

text \<open>
  \<open>if err := server.Start(cfg, logger); err != nil { logger.Fatal("server failed", zap.Error(err)) }\<close>:
  while \<open>Start\<close> has not returned the process is blocked in it; \<open>logger.Fatal\<close> hands the
  logger one entry at level Fatal and exits with status 1.
\<close>

definition stmt_Start :: "network \<Rightarrow> stmt" where
  "stmt_Start net p =
     (case v_cfg (scope p) of
        Undeclared \<Rightarrow> halt_with (Undefined ''cfg'') p
      | Declared c \<Rightarrow>
          (case v_logger (scope p) of
             Undeclared \<Rightarrow> halt_with (Undefined ''logger'') p
           | Declared l \<Rightarrow>
               (case Start c l net (log p) of
                  Inl pn \<Rightarrow> halt_with (Panicked pn) p
                | Inr srv \<Rightarrow>
                    (let p' = p \<lparr> log := srv_log srv, served := srv_outcomes srv \<rparr>
                     in case srv_returned srv of
                          None \<Rightarrow> halt_with Blocked p'
                        | Some (Error m) \<Rightarrow>
                            (case zap_log l FatalLevel ''server failed'' [(''error'', m)]
                                    (log p') of
                               Inl pn \<Rightarrow> halt_with (Panicked pn) p'
                             | Inr lg' \<Rightarrow> halt_with (Exited 1) (p' \<lparr> log := lg' \<rparr>))))))"

definition main_body :: "godotenv \<Rightarrow> go_error + zap_Logger \<Rightarrow> network \<Rightarrow> stmt list" where
  "main_body gd np net =
     [stmt_Load gd,
      stmt_assign_Logger,
      stmt_NewProduction np,
      stmt_check_err,
      stmt_defer_Sync,
      stmt_Info_starting,
      stmt_Start net]"

definition process_start :: "environ \<Rightarrow> process" where
  "process_start env =
     \<lparr> scope = \<lparr> v_cfg = Undeclared, v_logger = Undeclared, v_err = Undeclared \<rparr>,
       environ = env, log = [], std_log = [], deferred = [], served = [], halted = None \<rparr>"

definition main :: "godotenv \<Rightarrow> go_error + zap_Logger \<Rightarrow> network \<Rightarrow> environ \<Rightarrow> process" where
  "main gd np net env = exec (main_body gd np net) (process_start env)"

section \<open>Properties of the configuration loader\<close>

lemma Load_fst:
  "fst (Load gd env) =
     Some \<lparr> Port = getEnv (snd (gd env)) ''PORT'' ''8080'',
            DBUrl = os_Getenv (snd (gd env)) ''DATABASE_URL'',
            TwilioSID = os_Getenv (snd (gd env)) ''TWILIO_SID'',
            TwilioToken = os_Getenv (snd (gd env)) ''TWILIO_TOKEN'',
            Logger = None \<rparr>"
  by (simp add: Load_def split: prod.split)

lemma Load_snd: "snd (Load gd env) = snd (gd env)"
  by (simp add: Load_def split: prod.split)

text \<open>
  C2. The port of the configuration that \<open>Load\<close> returns is the value of \<open>PORT\<close> in the
  process environment (as it is when \<open>Load\<close> reads it, after the attempt to load the
  override file) when that value is not empty, and \<open>8080\<close> when \<open>PORT\<close> is unset or
  empty.
\<close>

theorem Load_port:
  "\<exists>cfg. fst (Load gd env) = Some cfg \<and>
     snd (Load gd env) = snd (gd env) \<and>
     (\<forall>v. snd (Load gd env) ''PORT'' = Some v \<and> v \<noteq> '''' \<longrightarrow> Port cfg = v) \<and>
     (snd (Load gd env) ''PORT'' = None \<or> snd (Load gd env) ''PORT'' = Some ''''
        \<longrightarrow> Port cfg = ''8080'')"
  by (auto simp: Load_fst Load_snd getEnv_def os_Getenv_def)

theorem Load_port_witness:
  "(\<exists>cfg. fst (Load dotenv_absent [''PORT'' \<mapsto> ''9090'']) = Some cfg \<and> Port cfg = ''9090'') \<and>
   (\<exists>cfg. fst (Load dotenv_absent Map.empty) = Some cfg \<and> Port cfg = ''8080'') \<and>
   (\<exists>cfg. fst (Load dotenv_absent [''PORT'' \<mapsto> '''']) = Some cfg \<and> Port cfg = ''8080'')"
  using Load_port [of dotenv_absent "[''PORT'' \<mapsto> ''9090'']"]
    Load_port [of dotenv_absent Map.empty]
    Load_port [of dotenv_absent "[''PORT'' \<mapsto> '''']"]
  by (simp add: Load_snd dotenv_absent_def)

text \<open>
  C3 as stated fails: with \<open>PORT\<close> present and empty, the port is \<open>8080\<close>, not the
  empty string.
\<close>

theorem Load_port_empty_counterexample:
  "map_option Port (fst (Load dotenv_absent [''PORT'' \<mapsto> ''''])) = Some ''8080'' \<and>
   map_option Port (fst (Load dotenv_absent [''PORT'' \<mapsto> ''''])) \<noteq> Some ''''"
  by (simp add: Load_fst dotenv_absent_def getEnv_def os_Getenv_def)

text \<open>
  C3, amended. For every non-empty value of \<open>PORT\<close> in the environment the port equals
  that value; when \<open>PORT\<close> is unset or present and empty the port is \<open>8080\<close>. So the port
  is \<open>8080\<close> exactly when \<open>PORT\<close> is unset, empty or itself \<open>8080\<close>.
\<close>

theorem Load_port_by_cases:
  "\<exists>cfg. fst (Load gd env) = Some cfg \<and>
     snd (Load gd env) = snd (gd env) \<and>
     Port cfg = (case snd (Load gd env) ''PORT'' of
                   None \<Rightarrow> ''8080''
                 | Some v \<Rightarrow> if v = '''' then ''8080'' else v) \<and>
     (Port cfg = ''8080'' \<longleftrightarrow>
        snd (Load gd env) ''PORT'' \<in> {None, Some '''', Some ''8080''})"
  by (auto simp: Load_fst Load_snd getEnv_def os_Getenv_def split: option.splits)

theorem Load_port_by_cases_witness:
  "(\<exists>cfg. fst (Load dotenv_absent [''PORT'' \<mapsto> ''3000'']) = Some cfg \<and>
      Port cfg = ''3000'' \<and> Port cfg \<noteq> ''8080'') \<and>
   (\<exists>cfg. fst (Load dotenv_absent [''PORT'' \<mapsto> '''']) = Some cfg \<and> Port cfg = ''8080'')"
  using Load_port_by_cases [of dotenv_absent "[''PORT'' \<mapsto> ''3000'']"]
    Load_port_by_cases [of dotenv_absent "[''PORT'' \<mapsto> '''']"]
  by (simp add: Load_snd dotenv_absent_def)

text \<open>
  C5. The fields \<open>DBUrl\<close>, \<open>TwilioSID\<close> and \<open>TwilioToken\<close> of the configuration that
  \<open>Load\<close> returns are the values of \<open>DATABASE_URL\<close>, \<open>TWILIO_SID\<close> and \<open>TWILIO_TOKEN\<close>
  in the process environment (as the attempt to load the override file leaves it, which
  is also the environment that \<open>Load\<close> leaves), with no default: each is the empty string
  when its variable is unset.
\<close>

theorem Load_no_default:
  "\<exists>cfg. fst (Load gd env) = Some cfg \<and>
     snd (Load gd env) = snd (gd env) \<and>
     DBUrl cfg = (case snd (gd env) ''DATABASE_URL'' of None \<Rightarrow> '''' | Some v \<Rightarrow> v) \<and>
     TwilioSID cfg = (case snd (gd env) ''TWILIO_SID'' of None \<Rightarrow> '''' | Some v \<Rightarrow> v) \<and>
     TwilioToken cfg = (case snd (gd env) ''TWILIO_TOKEN'' of None \<Rightarrow> '''' | Some v \<Rightarrow> v)"
  by (simp add: Load_fst Load_snd os_Getenv_def)

theorem Load_no_default_witness:
  "\<exists>cfg. fst (Load dotenv_absent
             [''DATABASE_URL'' \<mapsto> ''postgres://db/govinfo'', ''TWILIO_SID'' \<mapsto> ''AC123'',
              ''PORT'' \<mapsto> ''9090'']) = Some cfg \<and>
     DBUrl cfg = ''postgres://db/govinfo'' \<and> TwilioSID cfg = ''AC123'' \<and>
     TwilioToken cfg = ''''"
  using Load_no_default [of dotenv_absent
      "[''DATABASE_URL'' \<mapsto> ''postgres://db/govinfo'', ''TWILIO_SID'' \<mapsto> ''AC123'',
        ''PORT'' \<mapsto> ''9090'']"]
  by (auto simp: dotenv_absent_def)

text \<open>
  C6. \<open>Load\<close> has no failure path: for every environment and every outcome of the
  attempt to load the override file it returns a configuration (a non-nil pointer). The
  error of that attempt is dropped: two attempts that leave the same environment behind
  give the same result, so a missing file (an error, the environment untouched) is the
  same to \<open>Load\<close> as an attempt that succeeds and changes nothing.
\<close>

theorem Load_never_fails:
  "(\<exists>cfg. fst (Load gd env) = Some cfg) \<and>
   (snd (gd env) = snd (gd' env) \<longrightarrow> Load gd env = Load gd' env)"
  by (simp add: Load_def split: prod.split)

theorem Load_never_fails_witness:
  "fst (dotenv_absent Map.empty) \<noteq> None \<and>
   (\<exists>cfg. fst (Load dotenv_absent Map.empty) = Some cfg) \<and>
   Load dotenv_absent Map.empty = Load (\<lambda>env. (None, env)) Map.empty"
proof -
  have same: "snd (dotenv_absent Map.empty) = snd ((\<lambda>env. (None, env)) Map.empty)"
    by (simp add: dotenv_absent_def)
  have "fst (dotenv_absent Map.empty) \<noteq> None"
    by (simp add: dotenv_absent_def)
  with same Load_never_fails [of dotenv_absent Map.empty "\<lambda>env. (None, env)"]
  show ?thesis by blast
qed

section \<open>Properties of the server\<close>

lemma health_call:
  "health (Some l) w rq lg =
     Inr (fmt_Fprintln w ''OK'',
          lg @ [\<lparr> entry_logger = l, entry_level = InfoLevel,
                  entry_msg = ''Health check called'', entry_fields = [],
                  entry_written =
                    logger_core l (handed l lg) InfoLevel ''Health check called'' \<rparr>])"
  by (simp add: health_def zap_Info_def zap_log_def)

lemma ServeHTTP_health_mux:
  "ServeHTTP (chi_Get chi_NewRouter ''/health'' (health (Some l))) rq lg =
     (if req_method rq = ''GET'' \<and> req_path rq = ''/health'' then
        (Responded \<lparr> resp_status = 200, resp_body = ''OK'' @ [CHR 0x0A] \<rparr>,
         lg @ [\<lparr> entry_logger = l, entry_level = InfoLevel,
                 entry_msg = ''Health check called'', entry_fields = [],
                 entry_written =
                   logger_core l (handed l lg) InfoLevel ''Health check called'' \<rparr>])
      else if req_method rq \<in> set chi_methods \<and> req_path rq \<noteq> ''/health'' then
        (NotFound, lg)
      else (MethodNotAllowed, lg))"
  by (simp add: ServeHTTP_def chi_Get_def chi_NewRouter_def health_call fmt_Fprintln_def
      rw_Write_def rw_new_def rw_finish_def chi_methods_def)

lemma serve_Cons_fst:
  "fst (serve r (rq # rqs) lg) =
     fst (ServeHTTP r rq lg) # fst (serve r rqs (snd (ServeHTTP r rq lg)))"
  by (simp split: prod.split)

lemma serve_Cons_snd:
  "snd (serve r (rq # rqs) lg) = snd (serve r rqs (snd (ServeHTTP r rq lg)))"
  by (simp split: prod.split)

lemma serve_length: "length (fst (serve r rqs lg)) = length rqs"
  by (induction rqs arbitrary: lg) (simp_all add: serve_Cons_fst del: serve.simps(2))

lemma serve_health_outcome:
  assumes "i < length rqs"
    and "req_method (rqs ! i) = ''GET''"
    and "req_path (rqs ! i) = ''/health''"
  shows "fst (serve (chi_Get chi_NewRouter ''/health'' (health (Some l))) rqs lg) ! i =
           Responded \<lparr> resp_status = 200, resp_body = ''OK'' @ [CHR 0x0A] \<rparr>"
  using assms
proof (induction rqs arbitrary: i lg)
  case Nil
  then show ?case by simp
next
  case (Cons rq rqs)
  show ?case
  proof (cases i)
    case 0
    with Cons.prems have "req_method rq = ''GET''" "req_path rq = ''/health''"
      by simp_all
    then have "fst (ServeHTTP (chi_Get chi_NewRouter ''/health'' (health (Some l))) rq lg) =
        Responded \<lparr> resp_status = 200, resp_body = ''OK'' @ [CHR 0x0A] \<rparr>"
      by (simp add: ServeHTTP_health_mux)
    with 0 show ?thesis
      by (simp only: serve_Cons_fst nth_Cons_0)
  next
    case (Suc j)
    with Cons.prems have "j < length rqs" "req_method (rqs ! j) = ''GET''"
      "req_path (rqs ! j) = ''/health''"
      by simp_all
    from Cons.IH [OF this] Suc show ?thesis
      by (simp only: serve_Cons_fst nth_Cons_Suc)
  qed
qed

lemma ServeHTTP_health_mux_log:
  "snd (ServeHTTP (chi_Get chi_NewRouter ''/health'' (health (Some l))) rq lg) =
     lg @ (if req_method rq = ''GET'' \<and> req_path rq = ''/health''
           then [\<lparr> entry_logger = l, entry_level = InfoLevel,
                   entry_msg = ''Health check called'', entry_fields = [],
                   entry_written =
                     logger_core l (handed l lg) InfoLevel ''Health check called'' \<rparr>]
           else [])"
  by (simp add: ServeHTTP_health_mux)

lemma serve_health_log:
  "\<exists>bs. length bs =
          length (filter (\<lambda>rq. req_method rq = ''GET'' \<and> req_path rq = ''/health'') rqs) \<and>
     snd (serve (chi_Get chi_NewRouter ''/health'' (health (Some l))) rqs lg) =
       lg @ map (\<lambda>b. \<lparr> entry_logger = l, entry_level = InfoLevel,
                        entry_msg = ''Health check called'', entry_fields = [],
                        entry_written = b \<rparr>) bs"
proof (induction rqs arbitrary: lg)
  case Nil
  show ?case by simp
next
  case (Cons rq rqs)
  let ?r = "chi_Get chi_NewRouter ''/health'' (health (Some l))"
  let ?H = "\<lambda>b. \<lparr> entry_logger = l, entry_level = InfoLevel,
                   entry_msg = ''Health check called'', entry_fields = [],
                   entry_written = b \<rparr>"
  obtain bs where bs: "length bs =
      length (filter (\<lambda>rq. req_method rq = ''GET'' \<and> req_path rq = ''/health'') rqs)"
    "snd (serve ?r rqs (snd (ServeHTTP ?r rq lg))) = snd (ServeHTTP ?r rq lg) @ map ?H bs"
    using Cons.IH by blast
  show ?case
  proof (cases "req_method rq = ''GET'' \<and> req_path rq = ''/health''")
    case True
    let ?b = "logger_core l (handed l lg) InfoLevel ''Health check called''"
    from True bs have "length (?b # bs) =
        length (filter (\<lambda>rq. req_method rq = ''GET'' \<and> req_path rq = ''/health'') (rq # rqs))"
      "snd (serve ?r (rq # rqs) lg) = lg @ map ?H (?b # bs)"
      by (simp_all add: serve_Cons_snd ServeHTTP_health_mux_log del: serve.simps(2))
    then show ?thesis by blast
  next
    case False
    with bs have "length bs =
        length (filter (\<lambda>rq. req_method rq = ''GET'' \<and> req_path rq = ''/health'') (rq # rqs))"
      "snd (serve ?r (rq # rqs) lg) = lg @ map ?H bs"
      by (auto simp: serve_Cons_snd ServeHTTP_health_mux_log simp del: serve.simps(2))
    then show ?thesis by blast
  qed
qed

lemma serve_health_log_all:
  assumes "\<And>h. logger_core l h InfoLevel ''Health check called''"
  shows "snd (serve (chi_Get chi_NewRouter ''/health'' (health (Some l))) rqs lg) =
     lg @ replicate
            (length (filter (\<lambda>rq. req_method rq = ''GET'' \<and> req_path rq = ''/health'') rqs))
            \<lparr> entry_logger = l, entry_level = InfoLevel,
              entry_msg = ''Health check called'', entry_fields = [],
              entry_written = True \<rparr>"
proof (induction rqs arbitrary: lg)
  case Nil
  show ?case by simp
next
  case (Cons rq rqs)
  show ?case
    by (simp add: serve_Cons_snd ServeHTTP_health_mux_log Cons.IH assms replicate_app_Cons_same
        del: serve.simps(2))
qed

lemma Start_Some:
  "Start (Some cfg) (Some l) net lg =
     Inr (http_ListenAndServe ('':'' @ Port cfg)
            (chi_Get chi_NewRouter ''/health'' (health (Some l))) net
            (lg @ [\<lparr> entry_logger = l, entry_level = InfoLevel,
                     entry_msg = ''Server listening'',
                     entry_fields = [(''addr'', '':'' @ Port cfg)],
                     entry_written =
                       logger_core l (handed l lg) InfoLevel ''Server listening'' \<rparr>]))"
  by (simp add: Start_def zap_Info_def zap_log_def Let_def)

lemma ListenAndServe_up:
  "net_listen net addr = None \<Longrightarrow>
   http_ListenAndServe addr r net lg =
     \<lparr> srv_addr = addr, srv_returned = net_failure net,
       srv_outcomes = fst (serve r (net_requests net) lg),
       srv_log = snd (serve r (net_requests net) lg) \<rparr>"
  by (simp add: http_ListenAndServe_def split: prod.split)

lemma handed_snoc:
  "handed l (lg @ [e]) =
     handed l lg @
       (if logger_id (entry_logger e) = logger_id l then [(entry_level e, entry_msg e)] else [])"
  by (simp add: handed_def)

lemma upt_first: "[m ..< m + Suc n] = m # [Suc m ..< Suc m + n]"
  by (simp add: upt_conv_Cons)

lemma serve_health_sampled:
  assumes "req_method rq = ''GET''" and "req_path rq = ''/health''"
    and "logger_core l = core_production"
  shows "snd (serve (chi_Get chi_NewRouter ''/health'' (health (Some l))) (replicate n rq) lg) =
     lg @ map (\<lambda>k. \<lparr> entry_logger = l, entry_level = InfoLevel,
                       entry_msg = ''Health check called'', entry_fields = [],
                       entry_written = (k \<le> 100 \<or> (k - 100) mod 100 = 0) \<rparr>)
            [Suc (length (filter (\<lambda>(lvl', msg'). lvl' = InfoLevel \<and>
                                    msg' = ''Health check called'') (handed l lg)))
             ..< Suc (length (filter (\<lambda>(lvl', msg'). lvl' = InfoLevel \<and>
                                    msg' = ''Health check called'') (handed l lg))) + n]"
proof (induction n arbitrary: lg)
  case 0
  show ?case by simp
next
  case (Suc n)
  let ?c = "\<lambda>lg. length (filter (\<lambda>(lvl', msg'). lvl' = InfoLevel \<and>
                                    msg' = ''Health check called'') (handed l lg))"
  let ?H = "\<lambda>k. \<lparr> entry_logger = l, entry_level = InfoLevel,
                   entry_msg = ''Health check called'', entry_fields = [],
                   entry_written = (k \<le> 100 \<or> (k - 100) mod 100 = 0) \<rparr>"
  let ?r = "chi_Get chi_NewRouter ''/health'' (health (Some l))"
  have step: "snd (ServeHTTP ?r rq lg) = lg @ [?H (Suc (?c lg))]"
    using assms by (simp add: ServeHTTP_health_mux_log core_production_def Let_def)
  have count: "?c (lg @ [?H (Suc (?c lg))]) = Suc (?c lg)"
    by (simp add: handed_snoc)
  have "snd (serve ?r (replicate (Suc n) rq) lg) =
      snd (serve ?r (replicate n rq) (lg @ [?H (Suc (?c lg))]))"
    by (simp only: replicate_Suc serve_Cons_snd step)
  also have "\<dots> = (lg @ [?H (Suc (?c lg))]) @
      map ?H [Suc (Suc (?c lg)) ..< Suc (Suc (?c lg)) + n]"
    by (simp only: Suc.IH count)
  also have "\<dots> = lg @ map ?H [Suc (?c lg) ..< Suc (?c lg) + Suc n]"
    by (simp only: upt_first [of "Suc (?c lg)" n] list.map append_assoc append_Cons append_Nil)
  finally show ?case .
qed

lemma sampled_count:
  "length (filter (\<lambda>k. k \<le> 100 \<or> (k - 100) mod 100 = 0) [Suc 0 ..< 121]) = 100"
  by code_simp

text \<open>
  C1 as stated fails: the body of the response to \<open>GET /health\<close> is \<open>OK\<close> followed
  by a newline, not \<open>OK\<close>.
\<close>

theorem health_body_counterexample:
  "Start (Some \<lparr> Port = ''8080'', DBUrl = '''', TwilioSID = '''', TwilioToken = '''',
                  Logger = None \<rparr>)
     (Some (ZapLogger 0 core_all))
     \<lparr> net_listen = (\<lambda>addr. None),
       net_requests = [\<lparr> req_method = ''GET'', req_path = ''/health'',
                         req_header = [], req_body = '''' \<rparr>],
       net_failure = None \<rparr> []
   = Inr \<lparr> srv_addr = '':8080'', srv_returned = None,
           srv_outcomes = [Responded \<lparr> resp_status = 200,
                                        resp_body = [CHR ''O'', CHR ''K'', CHR 0x0A] \<rparr>],
           srv_log = [\<lparr> entry_logger = ZapLogger 0 core_all, entry_level = InfoLevel,
                        entry_msg = ''Server listening'',
                        entry_fields = [(''addr'', '':8080'')], entry_written = True \<rparr>,
                      \<lparr> entry_logger = ZapLogger 0 core_all, entry_level = InfoLevel,
                        entry_msg = ''Health check called'', entry_fields = [],
                        entry_written = True \<rparr>] \<rparr>
   \<and> [CHR ''O'', CHR ''K'', CHR 0x0A] \<noteq> ''OK''"
  by (simp add: Start_Some ListenAndServe_up ServeHTTP_health_mux core_all_def)

text \<open>
  C1, amended. For every configuration, every logger and every request with method GET
  and path \<open>/health\<close> that arrives while the listener is up, the response has status 200
  and the body \<open>OK\<close> followed by a newline, whatever the configuration holds.
\<close>

theorem health_response:
  assumes "net_listen net ('':'' @ Port cfg) = None"
    and "i < length (net_requests net)"
    and "req_method (net_requests net ! i) = ''GET''"
    and "req_path (net_requests net ! i) = ''/health''"
  shows "\<exists>srv. Start (Some cfg) (Some l) net lg = Inr srv \<and>
           length (srv_outcomes srv) = length (net_requests net) \<and>
           srv_outcomes srv ! i =
             Responded \<lparr> resp_status = 200, resp_body = ''OK'' @ [CHR 0x0A] \<rparr>"
proof -
  let ?r = "chi_Get chi_NewRouter ''/health'' (health (Some l))"
  let ?lg = "lg @ [\<lparr> entry_logger = l, entry_level = InfoLevel,
                     entry_msg = ''Server listening'',
                     entry_fields = [(''addr'', '':'' @ Port cfg)],
                     entry_written =
                       logger_core l (handed l lg) InfoLevel ''Server listening'' \<rparr>]"
  have run: "Start (Some cfg) (Some l) net lg =
      Inr \<lparr> srv_addr = '':'' @ Port cfg, srv_returned = net_failure net,
            srv_outcomes = fst (serve ?r (net_requests net) ?lg),
            srv_log = snd (serve ?r (net_requests net) ?lg) \<rparr>"
    by (simp only: Start_Some ListenAndServe_up [OF assms(1)])
  have "fst (serve ?r (net_requests net) ?lg) ! i =
      Responded \<lparr> resp_status = 200, resp_body = ''OK'' @ [CHR 0x0A] \<rparr>"
    by (rule serve_health_outcome [OF assms(2-4)])
  with run show ?thesis
    by (simp add: serve_length)
qed

theorem health_response_witness:
  "\<exists>srv. Start (Some \<lparr> Port = ''9090'', DBUrl = ''postgres://db'', TwilioSID = ''AC1'',
                        TwilioToken = ''t'', Logger = None \<rparr>)
           (Some (ZapLogger 7 core_production))
           \<lparr> net_listen = (\<lambda>addr. None),
             net_requests = [\<lparr> req_method = ''POST'', req_path = ''/health'',
                               req_header = [], req_body = ''x'' \<rparr>,
                             \<lparr> req_method = ''GET'', req_path = ''/health'',
                               req_header = [(''Accept'', ''*/*'')], req_body = '''' \<rparr>],
             net_failure = None \<rparr> [] = Inr srv \<and>
         length (srv_outcomes srv) = 2 \<and>
         srv_outcomes srv ! 1 =
           Responded \<lparr> resp_status = 200, resp_body = ''OK'' @ [CHR 0x0A] \<rparr>"
  using health_response [of
      "\<lparr> net_listen = (\<lambda>addr. None),
         net_requests = [\<lparr> req_method = ''POST'', req_path = ''/health'',
                           req_header = [], req_body = ''x'' \<rparr>,
                         \<lparr> req_method = ''GET'', req_path = ''/health'',
                           req_header = [(''Accept'', ''*/*'')], req_body = '''' \<rparr>],
         net_failure = None \<rparr>"
      "\<lparr> Port = ''9090'', DBUrl = ''postgres://db'', TwilioSID = ''AC1'',
         TwilioToken = ''t'', Logger = None \<rparr>"
      1 "ZapLogger 7 core_production" "[]"]
  by (simp add: numeral_2_eq_2)

text \<open>
  C4 as stated fails: the logger that the entrypoint builds samples. Of 120 calls of the
  \<open>/health\<close> handler within one second, each handing the logger one entry, the logger
  writes 100 entries, not 120.
\<close>

theorem health_sampled_counterexample:
  "(case Start (Some \<lparr> Port = ''8080'', DBUrl = '''', TwilioSID = '''', TwilioToken = '''',
                        Logger = None \<rparr>)
           (Some (ZapLogger 0 core_production))
           \<lparr> net_listen = (\<lambda>addr. None),
             net_requests = replicate 120 \<lparr> req_method = ''GET'', req_path = ''/health'',
                                             req_header = [], req_body = '''' \<rparr>,
             net_failure = None \<rparr> [] of
      Inl p \<Rightarrow> None
    | Inr srv \<Rightarrow>
        Some (length (filter (\<lambda>e. entry_msg e = ''Health check called'') (srv_log srv)),
              length (filter (\<lambda>e. entry_msg e = ''Health check called'' \<and> entry_written e)
                        (srv_log srv))))
   = Some (120, 100)"
proof -
  let ?l = "ZapLogger 0 core_production"
  let ?rq = "\<lparr> req_method = ''GET'', req_path = ''/health'', req_header = [],
               req_body = '''' \<rparr>"
  let ?lg = "[\<lparr> entry_logger = ?l, entry_level = InfoLevel, entry_msg = ''Server listening'',
                 entry_fields = [(''addr'', '':8080'')],
                 entry_written = True \<rparr>]"
  have "snd (serve (chi_Get chi_NewRouter ''/health'' (health (Some ?l)))
          (replicate 120 ?rq) ?lg) =
      ?lg @ map (\<lambda>k. \<lparr> entry_logger = ?l, entry_level = InfoLevel,
                        entry_msg = ''Health check called'', entry_fields = [],
                        entry_written = (k \<le> 100 \<or> (k - 100) mod 100 = 0) \<rparr>)
             [Suc 0 ..< 121]"
    by (simp add: serve_health_sampled handed_def)
  then show ?thesis
    by (simp add: Start_Some ListenAndServe_up core_production_def handed_def filter_map
        o_def sampled_count)
qed

text \<open>
  C4, amended. Every call of the \<open>/health\<close> handler hands the logger exactly one entry,
  at level Info, and the logger writes that entry or drops it, as its core decides: at
  most one entry is emitted per call. Over a run of \<open>Start\<close> the log grows by the entry
  "Server listening" and then by one entry for each request with method GET and path
  \<open>/health\<close>, and by nothing for any other request; with a logger whose core writes
  every Info entry "Health check called", every one of these entries is written, so
  exactly one entry is emitted per call.
\<close>

theorem health_logs_once:
  "(\<exists>w'. health (Some l) w rq lg =
      Inr (w', lg @ [\<lparr> entry_logger = l, entry_level = InfoLevel,
                       entry_msg = ''Health check called'', entry_fields = [],
                       entry_written =
                         logger_core l (handed l lg) InfoLevel ''Health check called'' \<rparr>])) \<and>
   (net_listen net ('':'' @ Port cfg) = None \<longrightarrow>
      (\<exists>srv bs. Start (Some cfg) (Some l) net lg = Inr srv \<and>
         length bs =
           length (filter (\<lambda>rq. req_method rq = ''GET'' \<and> req_path rq = ''/health'')
                     (net_requests net)) \<and>
         srv_log srv =
           lg @ [\<lparr> entry_logger = l, entry_level = InfoLevel,
                   entry_msg = ''Server listening'',
                   entry_fields = [(''addr'', '':'' @ Port cfg)],
                   entry_written =
                     logger_core l (handed l lg) InfoLevel ''Server listening'' \<rparr>]
              @ map (\<lambda>b. \<lparr> entry_logger = l, entry_level = InfoLevel,
                              entry_msg = ''Health check called'', entry_fields = [],
                              entry_written = b \<rparr>) bs \<and>
         ((\<forall>h. logger_core l h InfoLevel ''Health check called'') \<longrightarrow>
            bs = replicate (length bs) True)))"
proof (intro conjI impI)
  show "\<exists>w'. health (Some l) w rq lg =
      Inr (w', lg @ [\<lparr> entry_logger = l, entry_level = InfoLevel,
                       entry_msg = ''Health check called'', entry_fields = [],
                       entry_written =
                         logger_core l (handed l lg) InfoLevel ''Health check called'' \<rparr>])"
    by (simp add: health_call)
next
  assume up: "net_listen net ('':'' @ Port cfg) = None"
  let ?r = "chi_Get chi_NewRouter ''/health'' (health (Some l))"
  let ?n = "length (filter (\<lambda>rq. req_method rq = ''GET'' \<and> req_path rq = ''/health'')
                      (net_requests net))"
  let ?L = "\<lparr> entry_logger = l, entry_level = InfoLevel, entry_msg = ''Server listening'',
              entry_fields = [(''addr'', '':'' @ Port cfg)],
              entry_written = logger_core l (handed l lg) InfoLevel ''Server listening'' \<rparr>"
  let ?H = "\<lambda>b. \<lparr> entry_logger = l, entry_level = InfoLevel,
                   entry_msg = ''Health check called'', entry_fields = [],
                   entry_written = b \<rparr>"
  have run: "Start (Some cfg) (Some l) net lg =
      Inr \<lparr> srv_addr = '':'' @ Port cfg, srv_returned = net_failure net,
            srv_outcomes = fst (serve ?r (net_requests net) (lg @ [?L])),
            srv_log = snd (serve ?r (net_requests net) (lg @ [?L])) \<rparr>"
    by (simp only: Start_Some ListenAndServe_up [OF up])
  have "\<exists>bs. length bs = ?n \<and>
      snd (serve ?r (net_requests net) (lg @ [?L])) = lg @ [?L] @ map ?H bs \<and>
      ((\<forall>h. logger_core l h InfoLevel ''Health check called'') \<longrightarrow>
         bs = replicate (length bs) True)"
  proof (cases "\<forall>h. logger_core l h InfoLevel ''Health check called''")
    case True
    then have "snd (serve ?r (net_requests net) (lg @ [?L])) =
        (lg @ [?L]) @ replicate ?n (?H True)"
      by (simp only: serve_health_log_all)
    then have "length (replicate ?n True) = ?n \<and>
        snd (serve ?r (net_requests net) (lg @ [?L])) =
          lg @ [?L] @ map ?H (replicate ?n True) \<and>
        replicate ?n True = replicate (length (replicate ?n True :: bool list)) True"
      by simp
    then show ?thesis by blast
  next
    case False
    obtain bs where "length bs = ?n"
      "snd (serve ?r (net_requests net) (lg @ [?L])) = (lg @ [?L]) @ map ?H bs"
      using serve_health_log [of "net_requests net" l "lg @ [?L]"] by blast
    with False show ?thesis by auto
  qed
  with run show "\<exists>srv bs. Start (Some cfg) (Some l) net lg = Inr srv \<and>
         length bs = ?n \<and>
         srv_log srv = lg @ [?L] @ map ?H bs \<and>
         ((\<forall>h. logger_core l h InfoLevel ''Health check called'') \<longrightarrow>
            bs = replicate (length bs) True)"
    by auto
qed

theorem health_logs_once_witness:
  "\<exists>srv. Start (Some \<lparr> Port = ''8080'', DBUrl = '''', TwilioSID = '''', TwilioToken = '''',
                        Logger = None \<rparr>)
           (Some (ZapLogger 0 core_all))
           \<lparr> net_listen = (\<lambda>addr. None),
             net_requests = [\<lparr> req_method = ''GET'', req_path = ''/health'',
                               req_header = [], req_body = '''' \<rparr>,
                             \<lparr> req_method = ''GET'', req_path = ''/'',
                               req_header = [], req_body = '''' \<rparr>,
                             \<lparr> req_method = ''GET'', req_path = ''/health'',
                               req_header = [], req_body = '''' \<rparr>],
             net_failure = None \<rparr> [] = Inr srv \<and>
         srv_log srv =
           [\<lparr> entry_logger = ZapLogger 0 core_all, entry_level = InfoLevel,
              entry_msg = ''Server listening'', entry_fields = [(''addr'', '':8080'')],
              entry_written = True \<rparr>,
            \<lparr> entry_logger = ZapLogger 0 core_all, entry_level = InfoLevel,
              entry_msg = ''Health check called'', entry_fields = [],
              entry_written = True \<rparr>,
            \<lparr> entry_logger = ZapLogger 0 core_all, entry_level = InfoLevel,
              entry_msg = ''Health check called'', entry_fields = [],
              entry_written = True \<rparr>]"
proof -
  let ?net = "\<lparr> net_listen = (\<lambda>addr. None),
         net_requests = [\<lparr> req_method = ''GET'', req_path = ''/health'',
                           req_header = [], req_body = '''' \<rparr>,
                         \<lparr> req_method = ''GET'', req_path = ''/'',
                           req_header = [], req_body = '''' \<rparr>,
                         \<lparr> req_method = ''GET'', req_path = ''/health'',
                           req_header = [], req_body = '''' \<rparr>],
         net_failure = None \<rparr>"
  let ?cfg = "\<lparr> Port = ''8080'', DBUrl = '''', TwilioSID = '''', TwilioToken = '''',
         Logger = None \<rparr>"
  have up: "net_listen ?net ('':'' @ Port ?cfg) = None"
    by simp
  have all: "\<forall>h. logger_core (ZapLogger 0 core_all) h InfoLevel ''Health check called''"
    by (simp add: core_all_def)
  from health_logs_once [of "ZapLogger 0 core_all" rw_new
      "\<lparr> req_method = ''GET'', req_path = ''/health'', req_header = [], req_body = '''' \<rparr>"
      "[]" ?net ?cfg] up all
  obtain srv bs where r: "Start (Some ?cfg) (Some (ZapLogger 0 core_all)) ?net [] = Inr srv"
    "length bs = length (filter (\<lambda>rq. req_method rq = ''GET'' \<and> req_path rq = ''/health'')
                     (net_requests ?net))"
    "srv_log srv =
           [] @ [\<lparr> entry_logger = ZapLogger 0 core_all, entry_level = InfoLevel,
                   entry_msg = ''Server listening'',
                   entry_fields = [(''addr'', '':'' @ Port ?cfg)],
                   entry_written =
                     logger_core (ZapLogger 0 core_all) (handed (ZapLogger 0 core_all) [])
                       InfoLevel ''Server listening'' \<rparr>]
              @ map (\<lambda>b. \<lparr> entry_logger = ZapLogger 0 core_all, entry_level = InfoLevel,
                              entry_msg = ''Health check called'', entry_fields = [],
                              entry_written = b \<rparr>) bs"
    "bs = replicate (length bs) True"
    by blast
  from r(2) have "length bs = Suc (Suc 0)"
    by simp
  with r(4) have "bs = [True, True]"
    by simp
  with r(1,3) show ?thesis
    by (simp add: core_all_def)
qed

text \<open>
  C9. For every configuration, \<open>Start\<close> binds and listens on the address made of a colon
  and the configuration's port, and what it returns is the listener's error: the error of
  the failed bind, or else the fatal error that ends the listener. With no such error it
  does not return.
\<close>

theorem Start_listens:
  "\<exists>srv. Start (Some cfg) (Some l) net lg = Inr srv \<and>
     srv_addr srv = '':'' @ Port cfg \<and>
     srv_returned srv =
       (case net_listen net ('':'' @ Port cfg) of
          Some e \<Rightarrow> Some e
        | None \<Rightarrow> net_failure net) \<and>
     (\<forall>e. srv_returned srv = Some e \<longrightarrow>
        net_listen net ('':'' @ Port cfg) = Some e \<or> net_failure net = Some e) \<and>
     (net_listen net ('':'' @ Port cfg) = None \<and> net_failure net = None \<longrightarrow>
        srv_returned srv = None)"
  by (auto simp: Start_Some http_ListenAndServe_def split: option.splits prod.splits)

theorem Start_listens_witness:
  "\<exists>srv. Start (Some \<lparr> Port = ''8080'', DBUrl = '''', TwilioSID = '''', TwilioToken = '''',
                        Logger = None \<rparr>)
           (Some (ZapLogger 0 core_production))
           \<lparr> net_listen = (\<lambda>addr. if addr = '':8080''
                                   then Some (Error ''bind: address already in use'')
                                   else None),
             net_requests = [], net_failure = None \<rparr> [] = Inr srv \<and>
         srv_addr srv = '':8080'' \<and>
         srv_returned srv = Some (Error ''bind: address already in use'')"
  using Start_listens [of
      "\<lparr> Port = ''8080'', DBUrl = '''', TwilioSID = '''', TwilioToken = '''',
         Logger = None \<rparr>"
      "ZapLogger 0 core_production"
      "\<lparr> net_listen = (\<lambda>addr. if addr = '':8080''
                               then Some (Error ''bind: address already in use'')
                               else None),
         net_requests = [], net_failure = None \<rparr>"
      "[]"]
  by auto

text \<open>
  C10. The port of the configuration that \<open>Load\<close> returns is never empty, so the
  address on which \<open>Start\<close> listens with that configuration is never the bare colon.
\<close>

theorem Load_port_nonempty:
  "\<exists>cfg srv. fst (Load gd env) = Some cfg \<and> Port cfg \<noteq> '''' \<and>
     Start (fst (Load gd env)) (Some l) net lg = Inr srv \<and>
     srv_addr srv \<noteq> '':''"
  by (auto simp: Load_fst getEnv_def Let_def Start_Some http_ListenAndServe_def
      split: option.splits prod.splits)

section \<open>Properties of the entrypoint\<close>

text \<open>
  C8. In \<open>main\<close> the assignment to the \<open>Logger\<close> field of the configuration reads the
  variable \<open>logger\<close> before the statement that declares and constructs it: the first
  statement leaves \<open>logger\<close> undeclared, the second statement is the assignment, the third
  is the one that declares \<open>logger\<close>, and every run stops at the assignment with
  \<open>logger\<close> undefined.
\<close>

theorem main_logger_before_declaration:
  "halted (main gd np net env) = Some (Undefined ''logger'') \<and>
   halted (exec (take 1 (main_body gd np net)) (process_start env)) = None \<and>
   v_logger (scope (exec (take 1 (main_body gd np net)) (process_start env))) = Undeclared \<and>
   main_body gd np net ! 1 = stmt_assign_Logger \<and>
   main_body gd np net ! 2 = stmt_NewProduction np \<and>
   v_logger (scope (stmt_NewProduction np p)) \<noteq> Undeclared \<and>
   log (main gd np net env) = [] \<and> served (main gd np net env) = []"
  by (simp add: main_def main_body_def process_start_def stmt_Load_def stmt_assign_Logger_def
      stmt_NewProduction_def halt_with_def Let_def split: prod.split sum.split)












end
